theory Spec2Isabelle
  imports Complex_Main
begin

section \<open>MIS report instances: dates, validation, columns and drill-down\<close>

text \<open>
  A shallow embedding of \<^verbatim>\<open>mis_builder/models/mis_report_instance.py\<close>.
  Odoo records are HOL records, selection fields are datatypes, a field that reads
  \<^verbatim>\<open>False\<close> when it is not set is an \<open>option\<close>, and every \<^verbatim>\<open>raise\<close> is an
  \<open>Inl\<close> of the result. Field names carry a prefix for their model (\<open>p_\<close> for a
  period, \<open>i_\<close> for a report instance, \<open>pv_\<close> for a parameter value, \<open>dr_\<close> for a
  date range), since several models have fields of the same name.
\<close>

subsection \<open>Errors\<close>

datatype error =
    ValidationError string
  | UserError string
  | NameError string
  | AttributeError string
  | IndexError
  | ValueError
  | KeyError string
  | MissingError
  | OverflowError

subsection \<open>Dates\<close>

text \<open>
  A date is its proleptic Gregorian ordinal, the number Python's
  \<^verbatim>\<open>date.toordinal()\<close> gives (day 1 is 0001-01-01, a Monday, and day 3652059 is
  9999-12-31, the last date there is). \<^verbatim>\<open>date.weekday()\<close> is 0 on Monday and 6
  on Sunday.
\<close>

type_synonym date = int

definition weekday :: "date \<Rightarrow> int" where
  "weekday d = (d + 6) mod 7"

text \<open>
  \<^verbatim>\<open>datetime.timedelta(days=n)\<close> is an OverflowError when \<open>n\<close> is beyond
  999999999 days either way, and adding a timedelta to a date is an OverflowError
  when the day it gives is not a date.
\<close>

definition valid_days :: "int \<Rightarrow> bool" where
  "valid_days n = (- 999999999 \<le> n \<and> n \<le> 999999999)"

definition valid_date :: "int \<Rightarrow> bool" where
  "valid_date r = (1 \<le> r \<and> r \<le> 3652059)"

definition timedelta :: "int \<Rightarrow> error + int" where
  "timedelta n = (if valid_days n then Inr n else Inl OverflowError)"

definition date_add :: "date \<Rightarrow> int \<Rightarrow> error + date" where
  "date_add d n = (if valid_date (d + n) then Inr (d + n) else Inl OverflowError)"

definition date_sub :: "date \<Rightarrow> int \<Rightarrow> error + date" where
  "date_sub d n = (if valid_date (d - n) then Inr (d - n) else Inl OverflowError)"

text \<open>The calendar, for writing dates as year, month and day in the examples.\<close>

definition is_leap :: "int \<Rightarrow> bool" where
  "is_leap y = (y mod 4 = 0 \<and> (y mod 400 = 0 \<or> y mod 100 \<noteq> 0))"

definition days_before_year :: "int \<Rightarrow> int" where
  "days_before_year y = (y - 1) * 365 + (y - 1) div 4 - (y - 1) div 100 + (y - 1) div 400"

definition days_in_month :: "int \<Rightarrow> nat \<Rightarrow> int" where
  "days_in_month y m =
     (if m = 2 then (if is_leap y then 29 else 28)
      else if m = 4 \<or> m = 6 \<or> m = 9 \<or> m = 11 then 30 else 31)"

definition days_before_month :: "int \<Rightarrow> nat \<Rightarrow> int" where
  "days_before_month y m = sum_list (map (days_in_month y) [1..<m])"

definition ymd :: "int \<Rightarrow> nat \<Rightarrow> int \<Rightarrow> date" where
  "ymd y m d = days_before_year y + days_before_month y m + d"

subsection \<open>Python lists\<close>

text \<open>\<^verbatim>\<open>xs.index(x)\<close>: the first position of \<open>x\<close>, or a ValueError.\<close>

primrec list_index :: "'a list \<Rightarrow> 'a \<Rightarrow> error + nat" where
  "list_index [] x = Inl ValueError"
| "list_index (y # ys) x =
     (if y = x then Inr 0
      else (case list_index ys x of Inl e \<Rightarrow> Inl e | Inr k \<Rightarrow> Inr (Suc k)))"

text \<open>
  \<^verbatim>\<open>xs[i:j]\<close>: each bound counts from the end when negative and is clamped to the
  list; an empty or inverted range is the empty list.
\<close>

definition slice_bound :: "int \<Rightarrow> nat \<Rightarrow> nat" where
  "slice_bound i n = (if i < 0 then nat (max (i + int n) 0) else min (nat i) n)"

definition py_slice :: "'a list \<Rightarrow> int \<Rightarrow> int \<Rightarrow> 'a list" where
  "py_slice xs i j =
     (let lo = slice_bound i (length xs); hi = slice_bound j (length xs)
      in take (hi - lo) (drop lo xs))"

text \<open>\<^verbatim>\<open>xs[i]\<close>: an IndexError outside the list, also on the empty list.\<close>

definition py_getitem :: "'a list \<Rightarrow> int \<Rightarrow> error + 'a" where
  "py_getitem xs i =
     (let k = (if i < 0 then i + int (length xs) else i)
      in if k < 0 \<or> int (length xs) \<le> k then Inl IndexError else Inr (xs ! nat k))"

subsection \<open>The data model\<close>

datatype mode_sel = MODE_NONE | MODE_FIX | MODE_REL

datatype type_sel = TYPE_D | TYPE_W | TYPE_DATE_RANGE

datatype source_sel = SRC_ACTUALS | SRC_ACTUALS_ALT | SRC_SUMCOL | SRC_CMPCOL

datatype sign_sel = Plus | Minus

datatype target_move_sel = Posted | AllEntries

text \<open>
  \<^verbatim>\<open>mis.report.instance.period\<close>. A many2one field holds the id of the record it
  points to; \<open>p_source_sumcol_ids\<close> holds the lines of
  \<^verbatim>\<open>mis.report.instance.period.sum\<close> as pairs of sign and \<^verbatim>\<open>period_to_sum_id\<close>;
  \<open>p_source_aml_model_id\<close> holds the \<^verbatim>\<open>model\<close> name of the \<^verbatim>\<open>ir.model\<close> record.
  \<open>p_date_from\<close>, \<open>p_date_to\<close> and \<open>p_valid\<close> are the computed fields.
\<close>

record period =
  p_id :: nat
  p_name :: string
  p_mode :: mode_sel
  p_type :: "type_sel option"
  p_date_range_type_id :: "nat option"
  p_offset :: int
  p_duration :: int
  p_date_from :: "date option"
  p_date_to :: "date option"
  p_manual_date_from :: "date option"
  p_manual_date_to :: "date option"
  p_valid :: bool
  p_sequence :: int
  p_report_instance_id :: nat
  p_normalize_factor :: int
  p_subkpi_ids :: "nat list"
  p_source :: source_sel
  p_source_aml_model_id :: "string option"
  p_source_sumcol_ids :: "(sign_sel \<times> nat) list"
  p_source_sumcol_accdet :: bool
  p_source_cmpcol_from_id :: "nat option"
  p_source_cmpcol_to_id :: "nat option"

text \<open>
  \<^verbatim>\<open>mis.report.instance.param.value\<close>, with the fields of its
  \<^verbatim>\<open>mis.report.param\<close> that the file reads. \<open>pv_val_num\<close> is a float that is only
  handed on, never computed with.
\<close>

record param_value =
  pv_type :: "string option"
  pv_name :: string
  pv_val_str :: "string option"
  pv_val_num :: real
  pv_val_ref :: "string option"
  pv_ref_model_name :: string
  pv_ref_model_model :: string
  pv_ref_search_field_name :: string
  pv_ref_search_field_description :: string
  pv_ref_value_field_name :: string

text \<open>\<^verbatim>\<open>mis.report.instance\<close>; \<open>i_period_ids\<close> is in the order of the one2many.\<close>

record report_instance =
  i_id :: nat
  i_name :: string
  i_date_format :: "string option"
  i_date :: "date option"
  i_date_from :: "date option"
  i_date_to :: "date option"
  i_period_ids :: "period list"
  i_param_value_ids :: "param_value list"
  i_target_move :: target_move_sel
  i_company_id :: nat
  i_description_format_single :: "string option"
  i_description_format_range :: "string option"

text \<open>A row of \<^verbatim>\<open>date.range\<close>, the catalog of named date ranges.\<close>

record date_range =
  dr_id :: nat
  dr_type_id :: nat
  dr_company_id :: "nat option"
  dr_date_start :: date
  dr_date_end :: date

subsection \<open>Pivot date and comparison mode\<close>

text \<open>\<^verbatim>\<open>_compute_pivot_date\<close>: the base date, or today's date when there is none.\<close>

definition compute_pivot_date :: "date \<Rightarrow> report_instance \<Rightarrow> date" where
  "compute_pivot_date today record =
     (case i_date record of Some d \<Rightarrow> d | None \<Rightarrow> today)"

text \<open>\<^verbatim>\<open>_compute_comparison_mode\<close>.\<close>

definition compute_comparison_mode :: "report_instance \<Rightarrow> bool" where
  "compute_comparison_mode inst = (i_period_ids inst \<noteq> [] \<and> \<not> (i_date_from inst \<noteq> None))"

subsection \<open>Resolving the dates of a period\<close>

text \<open>
  The two searches of \<^verbatim>\<open>date.range\<close> that \<^verbatim>\<open>_compute_dates\<close> makes, over the
  table of date ranges in the default order of the model: the ranges of a type and
  company that contain the day \<open>d\<close>, in that order, and all ranges of that type and
  company in the order of their start (ranges with the same start stay in the order of
  the table).
\<close>

definition search_current_periods ::
    "date_range list \<Rightarrow> nat option \<Rightarrow> date \<Rightarrow> nat \<Rightarrow> date_range list" where
  "search_current_periods table type_id d company =
     filter (\<lambda>r. Some (dr_type_id r) = type_id \<and> dr_date_start r \<le> d \<and> dr_date_end r \<ge> d
                 \<and> dr_company_id r = Some company) table"

definition search_all_periods :: "date_range list \<Rightarrow> nat option \<Rightarrow> nat \<Rightarrow> date_range list" where
  "search_all_periods table type_id company =
     sort_key dr_date_start
       (filter (\<lambda>r. Some (dr_type_id r) = type_id \<and> dr_company_id r = Some company) table)"

text \<open>The branch of \<^verbatim>\<open>_compute_dates\<close> for the type \<^verbatim>\<open>'date_range'\<close>.\<close>

definition compute_dates_date_range ::
    "date_range list \<Rightarrow> report_instance \<Rightarrow> date \<Rightarrow> period \<Rightarrow> error + period" where
  "compute_dates_date_range table report d record =
     (case search_current_periods table (p_date_range_type_id record) d (i_company_id report) of
        [] \<Rightarrow> Inr record
      | current # _ \<Rightarrow>
          (let all_periods =
                 search_all_periods table (p_date_range_type_id record) (i_company_id report);
               all_period_ids = map dr_id all_periods
           in case list_index all_period_ids (dr_id current) of
                Inl e \<Rightarrow> Inl e
              | Inr k \<Rightarrow>
                  (let p = int k + p_offset record
                   in if p \<ge> 0 \<and> p + p_duration record \<le> int (length all_period_ids) then
                        (let periods = py_slice all_periods p (p + p_duration record)
                         in case py_getitem periods 0 of
                              Inl e \<Rightarrow> Inl e
                            | Inr first \<Rightarrow>
                                (case py_getitem periods (- 1) of
                                   Inl e \<Rightarrow> Inl e
                                 | Inr final \<Rightarrow>
                                     Inr (record\<lparr>p_date_from := Some (dr_date_start first),
                                                 p_date_to := Some (dr_date_end final),
                                                 p_valid := True\<rparr>)))
                      else Inr record)))"

text \<open>The branch of \<^verbatim>\<open>_compute_dates\<close> for the type \<^verbatim>\<open>'d'\<close>.\<close>

definition compute_dates_day :: "date \<Rightarrow> period \<Rightarrow> error + period" where
  "compute_dates_day d record =
     (case timedelta (p_offset record) of
        Inl e \<Rightarrow> Inl e
      | Inr offset_days \<Rightarrow>
     (case date_add d offset_days of
        Inl e \<Rightarrow> Inl e
      | Inr date_from \<Rightarrow>
     (case timedelta (p_duration record - 1) of
        Inl e \<Rightarrow> Inl e
      | Inr duration_days \<Rightarrow>
     (case date_add date_from duration_days of
        Inl e \<Rightarrow> Inl e
      | Inr date_to \<Rightarrow>
          Inr (record\<lparr>p_date_from := Some date_from, p_date_to := Some date_to,
                      p_valid := True\<rparr>)))))"

text \<open>The branch of \<^verbatim>\<open>_compute_dates\<close> for the type \<^verbatim>\<open>'w'\<close>.\<close>

definition compute_dates_week :: "date \<Rightarrow> period \<Rightarrow> error + period" where
  "compute_dates_week d record =
     (case timedelta (weekday d) of
        Inl e \<Rightarrow> Inl e
      | Inr weekdays \<Rightarrow>
     (case date_sub d weekdays of
        Inl e \<Rightarrow> Inl e
      | Inr monday \<Rightarrow>
     (case timedelta (p_offset record * 7) of
        Inl e \<Rightarrow> Inl e
      | Inr offset_days \<Rightarrow>
     (case date_add monday offset_days of
        Inl e \<Rightarrow> Inl e
      | Inr date_from \<Rightarrow>
     (case timedelta ((7 * p_duration record) - 1) of
        Inl e \<Rightarrow> Inl e
      | Inr duration_days \<Rightarrow>
     (case date_add date_from duration_days of
        Inl e \<Rightarrow> Inl e
      | Inr date_to \<Rightarrow>
          Inr (record\<lparr>p_date_from := Some date_from, p_date_to := Some date_to,
                      p_valid := True\<rparr>)))))))"

text \<open>
  \<^verbatim>\<open>_compute_dates\<close> for one record: \<open>report\<close> is the instance the period belongs
  to, \<open>today\<close> the date of the context and \<open>table\<close> the table of date ranges.
\<close>

definition compute_dates ::
    "date \<Rightarrow> date_range list \<Rightarrow> report_instance \<Rightarrow> period \<Rightarrow> error + period" where
  "compute_dates today table report record0 =
     (let record = record0\<lparr>p_date_from := None, p_date_to := None, p_valid := False\<rparr>;
          d = compute_pivot_date today report
      in if \<not> compute_comparison_mode report then
           Inr (record\<lparr>p_date_from := i_date_from report,
                       p_date_to := i_date_to report,
                       p_valid := (i_date_from report \<noteq> None \<and> i_date_to report \<noteq> None)\<rparr>)
         else if p_mode record = MODE_NONE then
           Inr (record\<lparr>p_date_from := None, p_date_to := None, p_valid := True\<rparr>)
         else if p_mode record = MODE_FIX then
           Inr (record\<lparr>p_date_from := p_manual_date_from record,
                       p_date_to := p_manual_date_to record,
                       p_valid := (p_manual_date_from record \<noteq> None
                                   \<and> p_manual_date_to record \<noteq> None)\<rparr>)
         else if p_type record = Some TYPE_D then compute_dates_day d record
         else if p_type record = Some TYPE_W then compute_dates_week d record
         else if p_type record = Some TYPE_DATE_RANGE then
           compute_dates_date_range table report d record
         else Inr record)"

subsection \<open>Creating a period\<close>

text \<open>
  The record that a \<^verbatim>\<open>(0, 0, vals)\<close> command creates before \<open>vals\<close> are applied:
  every field at the default of its declaration, \<open>new_id\<close> being the id the database
  gives the row.
\<close>

definition new_period :: "nat \<Rightarrow> nat \<Rightarrow> string \<Rightarrow> period" where
  "new_period new_id inst_id label =
     \<lparr>p_id = new_id, p_name = label, p_mode = MODE_FIX, p_type = None,
      p_date_range_type_id = None, p_offset = - 1, p_duration = 1,
      p_date_from = None, p_date_to = None,
      p_manual_date_from = None, p_manual_date_to = None, p_valid = False,
      p_sequence = 100, p_report_instance_id = inst_id, p_normalize_factor = 1,
      p_subkpi_ids = [], p_source = SRC_ACTUALS, p_source_aml_model_id = None,
      p_source_sumcol_ids = [], p_source_sumcol_accdet = False,
      p_source_cmpcol_from_id = None, p_source_cmpcol_to_id = None\<rparr>"

subsection \<open>Comparing records\<close>

text \<open>
  What the source compares with \<^verbatim>\<open>==\<close>: a recordset (the name of its model and its
  ids; a many2one field reads as a recordset of at most one record) or the integer
  \<^verbatim>\<open>id\<close> of a record. Equality is that of the framework's \<^verbatim>\<open>BaseModel.__eq__\<close>:
  two recordsets are equal when they are of the same model and hold the same ids, and
  a recordset is never equal to a value that is not a recordset.
\<close>

datatype pyval = Records string "nat list" | Id nat

fun py_eq :: "pyval \<Rightarrow> pyval \<Rightarrow> bool" where
  "py_eq (Records m ids) (Records m' ids') = (m = m' \<and> set ids = set ids')"
| "py_eq (Records m ids) (Id n) = False"
| "py_eq (Id n) (Records m ids) = False"
| "py_eq (Id n) (Id n') = (n = n')"

definition many2one :: "string \<Rightarrow> nat option \<Rightarrow> pyval" where
  "many2one model v = Records model (case v of None \<Rightarrow> [] | Some i \<Rightarrow> [i])"

definition period_model :: string where
  "period_model = ''mis.report.instance.period''"

text \<open>Reading \<^verbatim>\<open>report_instance_id\<close> through a many2one to a period.\<close>

definition read_report_instance_id :: "(nat \<Rightarrow> period option) \<Rightarrow> nat \<Rightarrow> error + nat" where
  "read_report_instance_id browse i =
     (case browse i of None \<Rightarrow> Inl MissingError | Some q \<Rightarrow> Inr (p_report_instance_id q))"

text \<open>\<^verbatim>\<open>browse\<close> over the rows of the period table.\<close>

definition browse_rows :: "period list \<Rightarrow> nat \<Rightarrow> period option" where
  "browse_rows rows i = find (\<lambda>p. p_id p = i) rows"

subsection \<open>The constraints\<close>

text \<open>
  \<^verbatim>\<open>_check_period_to_sum\<close>, on a line of \<^verbatim>\<open>mis.report.instance.period.sum\<close> with its
  parent column and the column to sum.
\<close>

definition check_period_to_sum :: "period \<Rightarrow> nat \<Rightarrow> error + unit" where
  "check_period_to_sum parent period_to_sum_id =
     (if py_eq (many2one period_model (Some (p_id parent)))
               (many2one period_model (Some period_to_sum_id))
      then Inl (ValidationError (''You cannot sum period '' @ p_name parent @ '' with itself.''))
      else Inr ())"

text \<open>\<^verbatim>\<open>_check_mode_source\<close>.\<close>

definition check_mode_source :: "period \<Rightarrow> error + unit" where
  "check_mode_source self =
     (if p_source self = SRC_ACTUALS \<or> p_source self = SRC_ACTUALS_ALT then
        (if p_mode self = MODE_NONE then
           Inl (ValidationError (''A date filter is mandatory for this source in column ''
                  @ p_name self @ ''.''))
         else Inr ())
      else if p_source self = SRC_SUMCOL \<or> p_source self = SRC_CMPCOL then
        (if p_mode self \<noteq> MODE_NONE then
           Inl (ValidationError (''No date filter is allowed for this source in column ''
                  @ p_name self @ ''.''))
         else Inr ())
      else Inr ())"

text \<open>
  \<^verbatim>\<open>_check_source_cmpcol\<close>; \<open>browse\<close> gives the period of an id. The second test
  compares each many2one field, a recordset, with \<^verbatim>\<open>self.id\<close>, an integer. The
  third reads the instance of the column to compare with only when that of the
  column to compare from is the period's own.
\<close>

definition check_source_cmpcol :: "(nat \<Rightarrow> period option) \<Rightarrow> period \<Rightarrow> error + unit" where
  "check_source_cmpcol browse self =
     (if p_source self = SRC_CMPCOL then
        (case (p_source_cmpcol_from_id self, p_source_cmpcol_to_id self) of
           (Some from_id, Some to_id) \<Rightarrow>
             if py_eq (many2one period_model (p_source_cmpcol_from_id self)) (Id (p_id self))
                \<or> py_eq (many2one period_model (p_source_cmpcol_to_id self)) (Id (p_id self))
             then Inl (ValidationError (''Column '' @ p_name self
                         @ '' cannot be compared to itself.''))
             else
               (case read_report_instance_id browse from_id of
                  Inl e \<Rightarrow> Inl e
                | Inr from_inst \<Rightarrow>
                    if from_inst \<noteq> p_report_instance_id self then
                      Inl (ValidationError
                             (''Columns to compare must belong to the same report in ''
                              @ p_name self))
                    else
                      (case read_report_instance_id browse to_id of
                         Inl e \<Rightarrow> Inl e
                       | Inr to_inst \<Rightarrow>
                           if to_inst \<noteq> p_report_instance_id self then
                             Inl (ValidationError
                                    (''Columns to compare must belong to the same report in ''
                                     @ p_name self))
                           else Inr ()))
         | _ \<Rightarrow> Inl (ValidationError (''Please provide both columns to compare in ''
                       @ p_name self @ ''.'')))
      else Inr ())"

text \<open>
  \<^verbatim>\<open>_sql_constraints\<close> of the period: what the database checks on the rows of the
  period table, and the message of each constraint.
\<close>

definition sql_duration :: "period \<Rightarrow> bool" where
  "sql_duration p = (p_duration p > 0)"

definition sql_normalize_factor :: "period \<Rightarrow> bool" where
  "sql_normalize_factor p = (p_normalize_factor p > 0)"

definition sql_name_unique :: "period list \<Rightarrow> bool" where
  "sql_name_unique rows = distinct (map (\<lambda>p. (p_name p, p_report_instance_id p)) rows)"

definition check_sql_constraints :: "period list \<Rightarrow> error + unit" where
  "check_sql_constraints rows =
     (if \<not> list_all sql_duration rows then
        Inl (ValidationError ''Wrong duration, it must be positive!'')
      else if \<not> list_all sql_normalize_factor rows then
        Inl (ValidationError ''Wrong normalize factor, it must be positive!'')
      else if \<not> sql_name_unique rows then
        Inl (ValidationError ''Period name should be unique by report'')
      else Inr ())"

subsection \<open>Parameter values\<close>

text \<open>
  The value of a parameter: a string, a number, \<^verbatim>\<open>False\<close> for a field that is not
  set, or whatever field of a record a reference reads. A record of another model is
  the list of its fields and values.
\<close>

datatype pvalue = VFalse | VStr string | VNum real | VRef nat

type_synonym orecord = "(string \<times> pvalue) list"

definition char_value :: "string option \<Rightarrow> pvalue" where
  "char_value v = (case v of None \<Rightarrow> VFalse | Some s \<Rightarrow> VStr s)"

definition char_text :: "string option \<Rightarrow> string" where
  "char_text v = (case v of None \<Rightarrow> ''False'' | Some s \<Rightarrow> s)"

definition apostrophe :: string where
  "apostrophe = [CHR 0x27]"

text \<open>
  \<^verbatim>\<open>_value\<close>. \<open>search model field v\<close> stands for
  \<^verbatim>\<open>self.env[model].search([(field, '=', v)])\<close>. The last branch of the source
  builds its message from \<^verbatim>\<open>pv.type\<close>, and \<^verbatim>\<open>pv\<close> is not a name of this method
  (it is the loop variable of \<^verbatim>\<open>_compute_val_display\<close>): evaluating it raises
  a NameError before any UserError is made.
\<close>

definition pv_value ::
    "(string \<Rightarrow> string \<Rightarrow> string option \<Rightarrow> orecord list) \<Rightarrow> param_value \<Rightarrow> error + pvalue" where
  "pv_value search self =
     (if pv_type self = Some ''str'' then Inr (char_value (pv_val_str self))
      else if pv_type self = Some ''num'' then Inr (VNum (pv_val_num self))
      else if pv_type self = Some ''ref'' then
        (let refs = search (pv_ref_model_model self) (pv_ref_search_field_name self)
                      (pv_val_ref self)
         in if refs = [] then
              Inl (UserError (''Parameter '' @ apostrophe @ pv_name self @ apostrophe
                     @ '' error. Can'' @ apostrophe @ ''t find any '' @ pv_ref_model_name self
                     @ '' records with '' @ pv_ref_search_field_description self
                     @ '' equal to '' @ apostrophe @ char_text (pv_val_ref self)
                     @ apostrophe @ ''.''))
            else
              (case py_getitem refs 0 of
                 Inl e \<Rightarrow> Inl e
               | Inr r \<Rightarrow>
                   (case map_of r (pv_ref_value_field_name self) of
                      None \<Rightarrow> Inl (KeyError (pv_ref_value_field_name self))
                    | Some v \<Rightarrow> Inr v)))
      else Inl (NameError ''pv''))"

text \<open>\<^verbatim>\<open>_param_vals\<close>: the dictionary from the name of each parameter to its value.\<close>

fun param_vals_from ::
    "(string \<Rightarrow> string \<Rightarrow> string option \<Rightarrow> orecord list) \<Rightarrow> param_value list
       \<Rightarrow> (string \<Rightarrow> pvalue option) \<Rightarrow> error + (string \<Rightarrow> pvalue option)" where
  "param_vals_from search [] acc = Inr acc"
| "param_vals_from search (pv # pvs) acc =
     (case pv_value search pv of
        Inl e \<Rightarrow> Inl e
      | Inr v \<Rightarrow> param_vals_from search pvs (acc(pv_name pv \<mapsto> v)))"

definition param_vals ::
    "(string \<Rightarrow> string \<Rightarrow> string option \<Rightarrow> orecord list) \<Rightarrow> report_instance
       \<Rightarrow> error + (string \<Rightarrow> pvalue option)" where
  "param_vals search self = param_vals_from search (i_param_value_ids self) Map.empty"

subsection \<open>Switching the comparison mode\<close>

text \<open>
  \<^verbatim>\<open>_inverse_comparison_mode\<close> for one record; \<open>comparison_mode\<close> is the value
  that was assigned to the field and \<open>new_id\<close> the id of the period that is created.
  \<^verbatim>\<open>datetime\<close> is the module here (\<^verbatim>\<open>import datetime\<close>), which has no
  attribute \<^verbatim>\<open>now\<close>: each of the two assignments of \<^verbatim>\<open>datetime.now()\<close> raises
  an AttributeError.
\<close>

definition inverse_comparison_mode ::
    "nat \<Rightarrow> bool \<Rightarrow> report_instance \<Rightarrow> error + report_instance" where
  "inverse_comparison_mode new_id comparison_mode record =
     (if \<not> comparison_mode then
        (if i_date_from record = None then Inl (AttributeError ''now'')
         else if i_date_to record = None then Inl (AttributeError ''now'')
         else Inr (record\<lparr>i_period_ids :=
                     [(new_period new_id (i_id record) ''Default'')\<lparr>p_type := Some TYPE_D\<rparr>]\<rparr>))
      else Inr (record\<lparr>i_date_from := None, i_date_to := None\<rparr>))"

subsection \<open>Truth values of fields\<close>

text \<open>A char field is false when it is not set and when it is the empty string.\<close>

definition truthy :: "string option \<Rightarrow> bool" where
  "truthy v = (case v of None \<Rightarrow> False | Some s \<Rightarrow> s \<noteq> [])"

subsection \<open>Formatting dates and descriptions\<close>

text \<open>
  \<^verbatim>\<open>_format_date\<close>: \<open>strftime\<close> is the formatting of the standard library and
  \<open>lang_format\<close> the date format of the user's language.
\<close>

definition format_date ::
    "(string \<Rightarrow> date \<Rightarrow> string) \<Rightarrow> string \<Rightarrow> report_instance \<Rightarrow> date \<Rightarrow> string" where
  "format_date strftime lang_format self d =
     (case i_date_format self of
        None \<Rightarrow> strftime lang_format d
      | Some f \<Rightarrow> if f = [] then strftime lang_format d else strftime f d)"

text \<open>\<^verbatim>\<open>str.replace\<close> for a tag that is not empty.\<close>

fun replace_str :: "string \<Rightarrow> string \<Rightarrow> string \<Rightarrow> string" where
  "replace_str [] tag val = []"
| "replace_str (c # cs) tag val =
     (if tag \<noteq> [] \<and> take (length tag) (c # cs) = tag
      then val @ replace_str (drop (length tag) (c # cs)) tag val
      else c # replace_str cs tag val)"

text \<open>\<^verbatim>\<open>_subst_description_dates\<close>.\<close>

definition subst_description_dates :: "string \<Rightarrow> string \<Rightarrow> string \<Rightarrow> string" where
  "subst_description_dates description_format date_from date_to =
     replace_str (replace_str description_format ''<<from>>'' date_from) ''<<to>>'' date_to"

text \<open>
  The description of a column, as the loop of \<^verbatim>\<open>_compute_matrix\<close> builds it from
  the period with its dates resolved; \<open>fmt\<close> is \<^verbatim>\<open>self._format_date\<close>.
\<close>

definition column_description ::
    "(date \<Rightarrow> string) \<Rightarrow> report_instance \<Rightarrow> period \<Rightarrow> string option" where
  "column_description fmt self period =
     (let date_from = (case p_date_from period of None \<Rightarrow> [] | Some d \<Rightarrow> fmt d);
          date_to = (case p_date_to period of None \<Rightarrow> [] | Some d \<Rightarrow> fmt d)
      in if p_mode period = MODE_NONE then None
         else if p_date_from period = p_date_to period \<and> p_date_from period \<noteq> None then
           (if truthy (i_description_format_single self) then
              Some (subst_description_dates
                      (case i_description_format_single self of None \<Rightarrow> [] | Some f \<Rightarrow> f)
                      date_from date_to)
            else (case p_date_from period of None \<Rightarrow> None | Some d \<Rightarrow> Some (fmt d)))
         else if p_date_from period \<noteq> None \<and> p_date_to period \<noteq> None then
           (if truthy (i_description_format_range self) then
              Some (subst_description_dates
                      (case i_description_format_range self of None \<Rightarrow> [] | Some f \<Rightarrow> f)
                      date_from date_to)
            else Some (''from '' @ date_from @ '' to '' @ date_to))
         else None)"

subsection \<open>The collaborators\<close>

text \<open>
  The hooks \<^verbatim>\<open>_get_additional_move_line_filter\<close> and
  \<^verbatim>\<open>_get_additional_query_filter\<close>: no restriction. \<open>'l\<close> is the type of the
  leaves of a domain and \<open>'q\<close> that of a query.
\<close>

definition get_additional_move_line_filter :: "period \<Rightarrow> 'l list" where
  "get_additional_move_line_filter self = []"

definition get_additional_query_filter :: "period \<Rightarrow> 'q \<Rightarrow> 'l list" where
  "get_additional_query_filter self query = []"

text \<open>
  The arguments of \<^verbatim>\<open>declare_and_compute_period\<close>, after the matrix. The move
  line filter is the hook applied to the period, and \<open>c_aml_model\<close> is \<open>None\<close>
  when the keyword \<^verbatim>\<open>aml_model\<close> is not given.
\<close>

record ('a, 'l, 'q) period_call =
  c_col_key :: nat
  c_label :: string
  c_description :: "string option"
  c_aep :: 'a
  c_date_from :: date
  c_date_to :: date
  c_target_move :: "target_move_sel option"
  c_subkpi_ids :: "nat list"
  c_get_additional_move_line_filter :: "'l list"
  c_get_additional_query_filter :: "'q \<Rightarrow> 'l list"
  c_aml_model :: "string option option"

text \<open>
  The report template and the KPI matrix are not in this file: their methods are
  taken as they are called, each returning an error or the matrix as it is after the
  call (\<open>'m\<close>; the source updates the matrix in place). \<open>'a\<close> is the expression
  processor and \<open>'d\<close> the dictionary of the result.
\<close>

record ('a, 'l, 'q, 'm, 'd) report_ops =
  prepare_aep :: "nat \<Rightarrow> error + 'a"
  prepare_kpi_matrix :: "error + 'm"
  declare_and_compute_period :: "'m \<Rightarrow> ('a, 'l, 'q) period_call \<Rightarrow> error + 'm"
  declare_sum ::
    "'m \<Rightarrow> nat \<Rightarrow> (sign_sel \<times> nat) list \<Rightarrow> string \<Rightarrow> string option \<Rightarrow> bool \<Rightarrow> error + 'm"
  declare_comparison ::
    "'m \<Rightarrow> nat \<Rightarrow> nat option \<Rightarrow> nat option \<Rightarrow> string \<Rightarrow> string option \<Rightarrow> error + 'm"
  compute_comparisons :: "'m \<Rightarrow> error + 'm"
  compute_sums :: "'m \<Rightarrow> error + 'm"
  as_dict :: "'m \<Rightarrow> error + 'd"
  strftime :: "string \<Rightarrow> date \<Rightarrow> string"
  lang_date_format :: string

subsection \<open>Adding a column\<close>

definition missing_dates_message :: "period \<Rightarrow> string" where
  "missing_dates_message period =
     ''Column '' @ p_name period @ '' with actuals source must have from/to dates.''"

text \<open>\<^verbatim>\<open>_add_column_actuals\<close>.\<close>

definition add_column_actuals ::
    "('a, 'l, 'q, 'm, 'd) report_ops \<Rightarrow> report_instance \<Rightarrow> 'a \<Rightarrow> 'm \<Rightarrow> period \<Rightarrow> string
       \<Rightarrow> string option \<Rightarrow> error + 'm" where
  "add_column_actuals ops self aep kpi_matrix period label description =
     (case (p_date_from period, p_date_to period) of
        (Some date_from, Some date_to) \<Rightarrow>
          declare_and_compute_period ops kpi_matrix
            \<lparr>c_col_key = p_id period, c_label = label, c_description = description,
             c_aep = aep, c_date_from = date_from, c_date_to = date_to,
             c_target_move = Some (i_target_move self), c_subkpi_ids = p_subkpi_ids period,
             c_get_additional_move_line_filter = get_additional_move_line_filter period,
             c_get_additional_query_filter = get_additional_query_filter period,
             c_aml_model = None\<rparr>
      | _ \<Rightarrow> Inl (UserError (missing_dates_message period)))"

text \<open>\<^verbatim>\<open>_add_column_actuals_alt\<close>.\<close>

definition add_column_actuals_alt ::
    "('a, 'l, 'q, 'm, 'd) report_ops \<Rightarrow> report_instance \<Rightarrow> 'a \<Rightarrow> 'm \<Rightarrow> period \<Rightarrow> string
       \<Rightarrow> string option \<Rightarrow> error + 'm" where
  "add_column_actuals_alt ops self aep kpi_matrix period label description =
     (case (p_date_from period, p_date_to period) of
        (Some date_from, Some date_to) \<Rightarrow>
          declare_and_compute_period ops kpi_matrix
            \<lparr>c_col_key = p_id period, c_label = label, c_description = description,
             c_aep = aep, c_date_from = date_from, c_date_to = date_to,
             c_target_move = None, c_subkpi_ids = p_subkpi_ids period,
             c_get_additional_move_line_filter = get_additional_move_line_filter period,
             c_get_additional_query_filter = get_additional_query_filter period,
             c_aml_model = Some (p_source_aml_model_id period)\<rparr>
      | _ \<Rightarrow> Inl (UserError (missing_dates_message period)))"

text \<open>\<^verbatim>\<open>_add_column_sumcol\<close> and \<^verbatim>\<open>_add_column_cmpcol\<close>.\<close>

definition add_column_sumcol ::
    "('a, 'l, 'q, 'm, 'd) report_ops \<Rightarrow> report_instance \<Rightarrow> 'a \<Rightarrow> 'm \<Rightarrow> period \<Rightarrow> string
       \<Rightarrow> string option \<Rightarrow> error + 'm" where
  "add_column_sumcol ops self aep kpi_matrix period label description =
     declare_sum ops kpi_matrix (p_id period) (p_source_sumcol_ids period) label description
       (p_source_sumcol_accdet period)"

definition add_column_cmpcol ::
    "('a, 'l, 'q, 'm, 'd) report_ops \<Rightarrow> report_instance \<Rightarrow> 'a \<Rightarrow> 'm \<Rightarrow> period \<Rightarrow> string
       \<Rightarrow> string option \<Rightarrow> error + 'm" where
  "add_column_cmpcol ops self aep kpi_matrix period label description =
     declare_comparison ops kpi_matrix (p_id period) (p_source_cmpcol_to_id period)
       (p_source_cmpcol_from_id period) label description"

text \<open>\<^verbatim>\<open>_add_column\<close>.\<close>

definition add_column ::
    "('a, 'l, 'q, 'm, 'd) report_ops \<Rightarrow> report_instance \<Rightarrow> 'a \<Rightarrow> 'm \<Rightarrow> period \<Rightarrow> string
       \<Rightarrow> string option \<Rightarrow> error + 'm" where
  "add_column ops self aep kpi_matrix period label description =
     (case p_source period of
        SRC_ACTUALS \<Rightarrow> add_column_actuals ops self aep kpi_matrix period label description
      | SRC_ACTUALS_ALT \<Rightarrow>
          add_column_actuals_alt ops self aep kpi_matrix period label description
      | SRC_SUMCOL \<Rightarrow> add_column_sumcol ops self aep kpi_matrix period label description
      | SRC_CMPCOL \<Rightarrow> add_column_cmpcol ops self aep kpi_matrix period label description)"

subsection \<open>Computing the matrix\<close>

text \<open>
  One round of the loop of \<^verbatim>\<open>_compute_matrix\<close>: the dates of the period are
  resolved (they are computed fields), the description is built and the column is
  added.
\<close>

definition compute_matrix_column ::
    "('a, 'l, 'q, 'm, 'd) report_ops \<Rightarrow> date \<Rightarrow> date_range list \<Rightarrow> report_instance \<Rightarrow> 'a
       \<Rightarrow> 'm \<Rightarrow> period \<Rightarrow> error + 'm" where
  "compute_matrix_column ops today table self aep kpi_matrix period0 =
     (case compute_dates today table self period0 of
        Inl e \<Rightarrow> Inl e
      | Inr period \<Rightarrow>
          add_column ops self aep kpi_matrix period (p_name period)
            (column_description (format_date (strftime ops) (lang_date_format ops) self)
               self period))"

fun compute_matrix_loop ::
    "('a, 'l, 'q, 'm, 'd) report_ops \<Rightarrow> date \<Rightarrow> date_range list \<Rightarrow> report_instance \<Rightarrow> 'a
       \<Rightarrow> period list \<Rightarrow> 'm \<Rightarrow> error + 'm" where
  "compute_matrix_loop ops today table self aep [] kpi_matrix = Inr kpi_matrix"
| "compute_matrix_loop ops today table self aep (period # periods) kpi_matrix =
     (case compute_matrix_column ops today table self aep kpi_matrix period of
        Inl e \<Rightarrow> Inl e
      | Inr kpi_matrix' \<Rightarrow> compute_matrix_loop ops today table self aep periods kpi_matrix')"

text \<open>\<^verbatim>\<open>_compute_matrix\<close>.\<close>

definition compute_matrix ::
    "('a, 'l, 'q, 'm, 'd) report_ops \<Rightarrow> date \<Rightarrow> date_range list \<Rightarrow> report_instance
       \<Rightarrow> error + 'm" where
  "compute_matrix ops today table self =
     (case prepare_aep ops (i_company_id self) of
        Inl e \<Rightarrow> Inl e
      | Inr aep \<Rightarrow>
          (case prepare_kpi_matrix ops of
             Inl e \<Rightarrow> Inl e
           | Inr kpi_matrix \<Rightarrow>
               (case compute_matrix_loop ops today table self aep (i_period_ids self)
                       kpi_matrix of
                  Inl e \<Rightarrow> Inl e
                | Inr kpi_matrix1 \<Rightarrow>
                    (case compute_comparisons ops kpi_matrix1 of
                       Inl e \<Rightarrow> Inl e
                     | Inr kpi_matrix2 \<Rightarrow> compute_sums ops kpi_matrix2))))"

text \<open>
  \<^verbatim>\<open>compute\<close>. \<open>with_context vals\<close> is the collaborators under the context that
  holds the parameter values as \<^verbatim>\<open>mis_param_vals\<close>.
\<close>

definition compute ::
    "((string \<Rightarrow> pvalue option) \<Rightarrow> ('a, 'l, 'q, 'm, 'd) report_ops)
       \<Rightarrow> (string \<Rightarrow> string \<Rightarrow> string option \<Rightarrow> orecord list)
       \<Rightarrow> date \<Rightarrow> date_range list \<Rightarrow> report_instance \<Rightarrow> error + 'd" where
  "compute with_context search today table self =
     (case param_vals search self of
        Inl e \<Rightarrow> Inl e
      | Inr vals \<Rightarrow>
          (case compute_matrix (with_context vals) today table self of
             Inl e \<Rightarrow> Inl e
           | Inr kpi_matrix \<Rightarrow> as_dict (with_context vals) kpi_matrix))"

subsection \<open>Drill-down\<close>





section \<open>Example records\<close>

text \<open>An instance with the base date 2024-03-15, no fixed dates and no column yet.\<close>

definition demo_instance :: report_instance where
  "demo_instance =
     \<lparr>i_id = 1, i_name = ''Demo'', i_date_format = None, i_date = Some (ymd 2024 3 15),
      i_date_from = None, i_date_to = None, i_period_ids = [], i_param_value_ids = [],
      i_target_move = Posted, i_company_id = 1,
      i_description_format_single = None, i_description_format_range = None\<rparr>"

text \<open>Columns of that instance.\<close>

definition total_column :: period where
  "total_column = (new_period 3 1 ''Total'')\<lparr>p_mode := MODE_NONE, p_source := SRC_SUMCOL\<rparr>"

definition week_column :: period where
  "week_column = (new_period 4 1 ''Week'')\<lparr>p_mode := MODE_REL, p_type := Some TYPE_W,
                    p_offset := 0\<rparr>"

definition months_column :: period where
  "months_column = (new_period 5 1 ''Months'')\<lparr>p_mode := MODE_REL,
                      p_type := Some TYPE_DATE_RANGE, p_date_range_type_id := Some 1,
                      p_offset := - 1, p_duration := 2\<rparr>"

definition far_column :: period where
  "far_column = months_column\<lparr>p_offset := - 5\<rparr>"

definition sales_column :: period where
  "sales_column = new_period 6 1 ''Sales''"

definition costs_column :: period where
  "costs_column = new_period 7 1 ''Costs''"

text \<open>The instance in comparison mode, and with a fixed range of January 2024.\<close>

definition comparison_instance :: report_instance where
  "comparison_instance =
     demo_instance\<lparr>i_period_ids := [week_column, months_column, total_column]\<rparr>"

definition fixed_instance :: report_instance where
  "fixed_instance =
     demo_instance\<lparr>i_date_from := Some (ymd 2024 1 1), i_date_to := Some (ymd 2024 1 31),
                    i_period_ids := [total_column]\<rparr>"

text \<open>Instances where only one end of the fixed range is set.\<close>

definition only_to_instance :: report_instance where
  "only_to_instance =
     demo_instance\<lparr>i_date_to := Some (ymd 2024 1 31), i_period_ids := [sales_column]\<rparr>"

definition only_from_instance :: report_instance where
  "only_from_instance =
     demo_instance\<lparr>i_date_from := Some (ymd 2024 1 1), i_period_ids := [sales_column]\<rparr>"

text \<open>The months of January to April 2024 as date ranges of type 1 of company 1.\<close>

definition month_range :: "nat \<Rightarrow> date \<Rightarrow> date \<Rightarrow> date_range" where
  "month_range i start stop =
     \<lparr>dr_id = i, dr_type_id = 1, dr_company_id = Some 1,
      dr_date_start = start, dr_date_end = stop\<rparr>"

definition months_2024 :: "date_range list" where
  "months_2024 =
     [month_range 11 738886 738916, month_range 12 738917 738945,
      month_range 13 738946 738976, month_range 14 738977 739006]"

text \<open>
  A comparison column whose column to compare from is the column itself, and the
  table that holds it.
\<close>

definition delta_column :: period where
  "delta_column =
     (new_period 8 1 ''Delta'')\<lparr>p_mode := MODE_NONE, p_source := SRC_CMPCOL,
        p_source_cmpcol_from_id := Some 8, p_source_cmpcol_to_id := Some 6\<rparr>"

definition delta_table :: "period list" where
  "delta_table = [sales_column, delta_column]"

text \<open>A parameter whose type is not set, and a reference that nothing matches.\<close>

definition untyped_param :: param_value where
  "untyped_param =
     \<lparr>pv_type = None, pv_name = ''rate'', pv_val_str = None, pv_val_num = 0,
      pv_val_ref = None, pv_ref_model_name = [], pv_ref_model_model = [],
      pv_ref_search_field_name = [], pv_ref_search_field_description = [],
      pv_ref_value_field_name = []\<rparr>"

definition partner_param :: param_value where
  "partner_param =
     \<lparr>pv_type = Some ''ref'', pv_name = ''partner'', pv_val_str = None, pv_val_num = 0,
      pv_val_ref = Some ''ACME'', pv_ref_model_name = ''Partner'',
      pv_ref_model_model = ''res.partner'', pv_ref_search_field_name = ''ref'',
      pv_ref_search_field_description = ''Internal Reference'',
      pv_ref_value_field_name = ''id''\<rparr>"

definition no_records :: "string \<Rightarrow> string \<Rightarrow> string option \<Rightarrow> orecord list" where
  "no_records model field v = []"

text \<open>
  Collaborators for the examples: the matrix is the list of the columns declared so
  far, and no call fails.
\<close>

definition demo_ops :: "(unit, unit, unit, nat list, nat list) report_ops" where
  "demo_ops =
     \<lparr>prepare_aep = (\<lambda>company. Inr ()),
      prepare_kpi_matrix = Inr [],
      declare_and_compute_period = (\<lambda>m c. Inr (m @ [c_col_key c])),
      declare_sum = (\<lambda>m k cols label description accdet. Inr (m @ [k])),
      declare_comparison = (\<lambda>m k to_id from_id label description. Inr (m @ [k])),
      compute_comparisons = Inr,
      compute_sums = Inr,
      as_dict = Inr,
      strftime = (\<lambda>f d. f),
      lang_date_format = ''%m/%d/%Y''\<rparr>"

definition demo_context ::
    "(string \<Rightarrow> pvalue option) \<Rightarrow> (unit, unit, unit, nat list, nat list) report_ops" where
  "demo_context vals = demo_ops"

text \<open>Instances whose actuals columns have no dates.\<close>

definition undated_instance :: report_instance where
  "undated_instance = demo_instance\<lparr>i_period_ids := [sales_column, costs_column]\<rparr>"

definition unresolved_param_instance :: report_instance where
  "unresolved_param_instance =
     demo_instance\<lparr>i_period_ids := [sales_column], i_param_value_ids := [partner_param]\<rparr>"





text \<open>Two rows of one instance with the same name.\<close>

definition twin_rows :: "period list" where
  "twin_rows = [new_period 1 1 ''Sales'', new_period 2 1 ''Sales'']"



text \<open>
  A date range column with the duration 0 in an instance in comparison mode, and the
  date range column of two months in an instance with the fixed range of January 2024.
\<close>

definition zero_months_column :: period where
  "zero_months_column = months_column\<lparr>p_duration := 0\<rparr>"

definition zero_months_instance :: report_instance where
  "zero_months_instance = demo_instance\<lparr>i_period_ids := [zero_months_column]\<rparr>"

definition fixed_months_instance :: report_instance where
  "fixed_months_instance =
     demo_instance\<lparr>i_date_from := Some (ymd 2024 1 1), i_date_to := Some (ymd 2024 1 31),
                    i_period_ids := [months_column]\<rparr>"

section \<open>Properties\<close>

subsection \<open>Helper facts\<close>


lemma list_index_mem:
  "x \<in> set ys \<Longrightarrow> \<exists>k. list_index ys x = Inr k \<and> k < length ys"
  by (induction ys) auto

lemma py_slice_window:
  assumes "0 \<le> i" "i \<le> j" "j \<le> int (length xs)"
  shows "py_slice xs i j = take (nat (j - i)) (drop (nat i) xs)"
proof -
  have lo: "slice_bound i (length xs) = nat i"
    using assms by (simp add: slice_bound_def)
  have hi: "slice_bound j (length xs) = nat j"
    using assms by (simp add: slice_bound_def)
  have "nat j - nat i = nat (j - i)"
    using assms by simp
  then show ?thesis
    by (simp add: py_slice_def lo hi)
qed

lemma py_getitem_first: "xs \<noteq> [] \<Longrightarrow> py_getitem xs 0 = Inr (xs ! 0)"
  by (simp add: py_getitem_def)

lemma py_getitem_last: "xs \<noteq> [] \<Longrightarrow> py_getitem xs (- 1) = Inr (xs ! (length xs - 1))"
proof -
  assume ne: "xs \<noteq> []"
  then have len: "0 < length xs" by simp
  then have "nat (- 1 + int (length xs)) = length xs - 1" by simp
  with len show ?thesis
    by (auto simp add: py_getitem_def Let_def)
qed

lemma current_in_all:
  assumes "search_current_periods table ty d c = cur # rest"
  shows "dr_id cur \<in> set (map dr_id (search_all_periods table ty c))"
proof -
  have "cur \<in> set (search_current_periods table ty d c)"
    using assms by simp
  then have "cur \<in> set (search_all_periods table ty c)"
    by (simp add: search_current_periods_def search_all_periods_def)
  then show ?thesis by simp
qed

lemmas calendar_defs =
  ymd_def days_before_year_def days_before_month_def days_in_month_def is_leap_def upt_rec

subsection \<open>Periods without a date filter\<close>

text \<open>
  C1 (as amended). For every period whose mode is \<^verbatim>\<open>'none'\<close> and whose instance
  is in comparison mode, resolving the dates gives no \<open>date_from\<close>, no \<open>date_to\<close>
  and \<open>valid = True\<close>, whatever the type, offset and duration of the period.
\<close>

theorem no_date_filter_in_comparison_mode:
  assumes "compute_comparison_mode report" and "p_mode record = MODE_NONE"
  shows "compute_dates today table report record =
           Inr (record\<lparr>p_date_from := None, p_date_to := None, p_valid := True\<rparr>)"
  using assms by (simp add: compute_dates_def)

theorem no_date_filter_in_comparison_mode_witness:
  "compute_dates 0 [] comparison_instance total_column =
     Inr (total_column\<lparr>p_date_from := None, p_date_to := None, p_valid := True\<rparr>)"
proof -
  have cm: "compute_comparison_mode comparison_instance"
    by (simp add: compute_comparison_mode_def comparison_instance_def demo_instance_def)
  have md: "p_mode total_column = MODE_NONE"
    by (simp add: total_column_def)
  show ?thesis
    using no_date_filter_in_comparison_mode [OF cm md] .
qed

text \<open>
  The claim as it is written fails outside comparison mode: a period without a date
  filter in an instance with the fixed range of January 2024 takes the dates of the
  instance.
\<close>

theorem no_date_filter_counterexample:
  "p_mode total_column = MODE_NONE
   \<and> compute_dates 0 [] fixed_instance total_column =
       Inr (total_column\<lparr>p_date_from := Some (ymd 2024 1 1),
                          p_date_to := Some (ymd 2024 1 31), p_valid := True\<rparr>)"
  by (simp add: compute_dates_def compute_comparison_mode_def fixed_instance_def
        demo_instance_def total_column_def)

lemma fixed_range_instance_dates:
  assumes "\<not> compute_comparison_mode report"
  shows "compute_dates today table report record =
           Inr (record\<lparr>p_date_from := i_date_from report, p_date_to := i_date_to report,
                  p_valid := (i_date_from report \<noteq> None \<and> i_date_to report \<noteq> None)\<rparr>)"
  using assms by (simp add: compute_dates_def)

subsection \<open>The comparison mode flag\<close>

text \<open>
  C5 (as amended). For every instance, \<open>comparison_mode\<close> is true exactly when the
  instance has at least one period and its \<open>date_from\<close> is not set; \<open>date_to\<close> is
  not looked at.
\<close>

theorem comparison_mode_iff:
  "compute_comparison_mode inst = (i_period_ids inst \<noteq> [] \<and> i_date_from inst = None)"
  by (simp add: compute_comparison_mode_def)

text \<open>
  The claim as it is written speaks of the range of \<open>date_from\<close> and \<open>date_to\<close>:
  an instance with a column and only \<open>date_to\<close> set is in comparison mode although
  an end of the fixed range is set, and one with a column and only \<open>date_from\<close> set
  is not in comparison mode although the fixed range is not complete.
\<close>

theorem comparison_mode_counterexample:
  "compute_comparison_mode only_to_instance
   \<and> i_period_ids only_to_instance \<noteq> []
   \<and> i_date_to only_to_instance \<noteq> None
   \<and> \<not> compute_comparison_mode only_from_instance
   \<and> i_period_ids only_from_instance \<noteq> []
   \<and> i_date_to only_from_instance = None"
  by (simp add: compute_comparison_mode_def only_to_instance_def only_from_instance_def
        demo_instance_def)

subsection \<open>Weeks\<close>






subsection \<open>Date ranges\<close>

lemma date_range_window:
  assumes dur: "0 < p_duration record"
    and cur: "search_current_periods table (p_date_range_type_id record) d (i_company_id report)
                = current # rest"
    and idx: "list_index (map dr_id (search_all_periods table (p_date_range_type_id record)
                (i_company_id report))) (dr_id current) = Inr k"
    and lo: "0 \<le> int k + p_offset record"
    and hi: "int k + p_offset record + p_duration record
               \<le> int (length (search_all_periods table (p_date_range_type_id record)
                    (i_company_id report)))"
  shows "compute_dates_date_range table report d record =
           Inr (record\<lparr>p_date_from := Some (dr_date_start
                   (search_all_periods table (p_date_range_type_id record) (i_company_id report)
                      ! nat (int k + p_offset record))),
                 p_date_to := Some (dr_date_end
                   (search_all_periods table (p_date_range_type_id record) (i_company_id report)
                      ! nat (int k + p_offset record + p_duration record - 1))),
                 p_valid := True\<rparr>)
         \<and> nat (int k + p_offset record + p_duration record - 1)
             < length (search_all_periods table (p_date_range_type_id record) (i_company_id report))"
proof -
  define allp where
    "allp = search_all_periods table (p_date_range_type_id record) (i_company_id report)"
  define p where "p = int k + p_offset record"
  define w where "w = py_slice allp p (p + p_duration record)"
  have w_eq: "w = take (nat (p_duration record)) (drop (nat p) allp)"
    unfolding w_def using lo hi dur
    by (simp add: py_slice_window p_def allp_def)
  have fits: "nat p + nat (p_duration record) \<le> length allp"
    using lo hi dur by (simp add: p_def allp_def nat_le_iff nat_add_distrib)
  have w_len: "length w = nat (p_duration record)"
    using fits by (simp add: w_eq)
  have w_ne: "w \<noteq> []"
    using w_len dur by auto
  have w_first: "w ! 0 = allp ! nat p"
    using fits dur by (simp add: w_eq)
  have p0: "0 \<le> p"
    using lo by (simp add: p_def)
  have last_pos: "nat p + nat (p_duration record) - Suc 0 = nat (p + p_duration record - 1)"
    using p0 dur by linarith
  have w_last: "w ! (length w - 1) = allp ! nat (p + p_duration record - 1)"
    using fits dur by (simp add: w_eq last_pos)
  have inb: "nat (p + p_duration record - 1) < length allp"
    using fits dur p0 by linarith
  have "compute_dates_date_range table report d record =
          Inr (record\<lparr>p_date_from := Some (dr_date_start (w ! 0)),
                      p_date_to := Some (dr_date_end (w ! (length w - 1))),
                      p_valid := True\<rparr>)"
    unfolding compute_dates_date_range_def
    using cur idx lo hi w_ne
    by (simp add: Let_def allp_def [symmetric] p_def [symmetric] w_def [symmetric]
          py_getitem_first py_getitem_last)
  moreover have "w ! (length w - Suc 0) = allp ! nat (p + p_duration record - 1)"
    using w_last by simp
  ultimately show ?thesis
    using inb by (simp add: w_first allp_def [symmetric] p_def [symmetric])
qed

text \<open>
  C7 (as amended). For every period with the mode \<^verbatim>\<open>'relative'\<close> and the type
  \<^verbatim>\<open>'date_range'\<close> in an instance in comparison mode, with a positive duration
  (the SQL constraint of the period): when no date range of the type and company
  contains the pivot date, the period is left without dates and not valid. Otherwise
  the range that contains the pivot date is found at a position \<open>k\<close> of the ranges in
  the order of their start; with \<open>p = k + offset\<close>, when \<open>p\<close> is negative or
  \<open>p + duration\<close> is beyond the number of ranges the period is left without dates
  and not valid, and otherwise \<open>date_from\<close> is the start of the range at \<open>p\<close> and
  \<open>date_to\<close> the end of the range at \<open>p + duration - 1\<close>, both positions being
  inside the list. No case ends in an IndexError or a ValueError.
\<close>

theorem date_range_window_resolution:
  assumes cm: "compute_comparison_mode report"
    and md: "p_mode record = MODE_REL"
    and ty: "p_type record = Some TYPE_DATE_RANGE"
    and dur: "0 < p_duration record"
  shows "let d = compute_pivot_date today report;
             all_periods = search_all_periods table (p_date_range_type_id record)
                             (i_company_id report);
             unresolved = record\<lparr>p_date_from := None, p_date_to := None, p_valid := False\<rparr>;
             result = compute_dates today table report record
         in case search_current_periods table (p_date_range_type_id record) d
                   (i_company_id report) of
              [] \<Rightarrow> result = Inr unresolved
            | current # _ \<Rightarrow>
                (\<exists>k < length all_periods.
                   list_index (map dr_id all_periods) (dr_id current) = Inr k \<and>
                   (let p = int k + p_offset record
                    in if p < 0 \<or> int (length all_periods) < p + p_duration record
                       then result = Inr unresolved
                       else nat p < length all_periods
                          \<and> nat (p + p_duration record - 1) < length all_periods
                          \<and> result =
                              Inr (record\<lparr>p_date_from :=
                                            Some (dr_date_start (all_periods ! nat p)),
                                          p_date_to :=
                                            Some (dr_date_end
                                              (all_periods ! nat (p + p_duration record - 1))),
                                          p_valid := True\<rparr>)))"
proof -
  define d where "d = compute_pivot_date today report"
  define allp where
    "allp = search_all_periods table (p_date_range_type_id record) (i_company_id report)"
  define rec0 where "rec0 = record\<lparr>p_date_from := None, p_date_to := None, p_valid := False\<rparr>"
  define cur where
    "cur = search_current_periods table (p_date_range_type_id record) d (i_company_id report)"
  have step: "compute_dates today table report record =
                compute_dates_date_range table report d rec0"
    using cm md ty by (simp add: compute_dates_def Let_def d_def rec0_def)
  have same: "p_date_range_type_id rec0 = p_date_range_type_id record"
    "p_offset rec0 = p_offset record" "p_duration rec0 = p_duration record"
    by (simp_all add: rec0_def)
  have goal: "case cur of
              [] \<Rightarrow> compute_dates today table report record = Inr rec0
            | current # _ \<Rightarrow>
                (\<exists>k < length allp.
                   list_index (map dr_id allp) (dr_id current) = Inr k \<and>
                   (let p = int k + p_offset record
                    in if p < 0 \<or> int (length allp) < p + p_duration record
                       then compute_dates today table report record = Inr rec0
                       else nat p < length allp
                          \<and> nat (p + p_duration record - 1) < length allp
                          \<and> compute_dates today table report record =
                              Inr (record\<lparr>p_date_from :=
                                            Some (dr_date_start (allp ! nat p)),
                                          p_date_to :=
                                            Some (dr_date_end
                                              (allp ! nat (p + p_duration record - 1))),
                                          p_valid := True\<rparr>)))"
  proof (cases cur)
    case Nil
    then show ?thesis
      using step by (simp add: compute_dates_date_range_def cur_def same)
  next
    case (Cons current rest)
    then have cur_eq: "search_current_periods table (p_date_range_type_id rec0) d
                         (i_company_id report) = current # rest"
      by (simp add: cur_def same)
    have "dr_id current \<in> set (map dr_id allp)"
      using current_in_all [OF cur_eq] by (simp add: allp_def same)
    then obtain k where idx: "list_index (map dr_id allp) (dr_id current) = Inr k"
      and kb: "k < length allp"
      using list_index_mem by fastforce
    define p where "p = int k + p_offset record"
    have body: "if p < 0 \<or> int (length allp) < p + p_duration record
                then compute_dates today table report record = Inr rec0
                else nat p < length allp
                   \<and> nat (p + p_duration record - 1) < length allp
                   \<and> compute_dates today table report record =
                       Inr (record\<lparr>p_date_from := Some (dr_date_start (allp ! nat p)),
                                   p_date_to := Some (dr_date_end
                                       (allp ! nat (p + p_duration record - 1))),
                                   p_valid := True\<rparr>)"
    proof (cases "p < 0 \<or> int (length allp) < p + p_duration record")
      case True
      then have "\<not> (0 \<le> p \<and> p + p_duration record \<le> int (length allp))"
        by linarith
      then have "compute_dates_date_range table report d rec0 = Inr rec0"
        unfolding compute_dates_date_range_def
        using cur_eq idx by (auto simp add: Let_def same allp_def [symmetric] p_def [symmetric])
      with True step show ?thesis by simp
    next
      case False
      then have lo: "0 \<le> int k + p_offset rec0"
        and hi: "int k + p_offset rec0 + p_duration rec0
                   \<le> int (length (search_all_periods table (p_date_range_type_id rec0)
                        (i_company_id report)))"
        by (simp_all add: p_def same allp_def)
      have dur0: "0 < p_duration rec0"
        using dur by (simp add: same)
      have idx0: "list_index (map dr_id (search_all_periods table (p_date_range_type_id rec0)
                     (i_company_id report))) (dr_id current) = Inr k"
        using idx by (simp add: same allp_def)
      note win = date_range_window [OF dur0 cur_eq idx0 lo hi]
      have r: "compute_dates today table report record =
                 Inr (record\<lparr>p_date_from := Some (dr_date_start (allp ! nat p)),
                             p_date_to := Some (dr_date_end
                                 (allp ! nat (p + p_duration record - 1))),
                             p_valid := True\<rparr>)"
        using win step by (simp add: same allp_def [symmetric] p_def [symmetric] rec0_def)
      have b2: "nat (p + p_duration record - 1) < length allp"
        using win by (simp add: same allp_def [symmetric] p_def [symmetric])
      have b1: "nat p < length allp"
        using False dur by linarith
      from False r b1 b2 show ?thesis by simp
    qed
    show ?thesis
      using Cons idx kb body by (auto simp add: Let_def p_def)
  qed
  show ?thesis
    using goal unfolding Let_def d_def allp_def rec0_def cur_def .
qed

text \<open>
  With the months of 2024 as date ranges and the pivot date 2024-03-15: two months
  from the month before run from 2024-02-01 to 2024-03-31, and five months back
  there is no range.
\<close>

theorem date_range_window_resolution_witness:
  "compute_dates 0 months_2024 comparison_instance months_column =
     Inr (months_column\<lparr>p_date_from := Some 738917, p_date_to := Some 738976,
                         p_valid := True\<rparr>)
   \<and> compute_dates 0 months_2024 comparison_instance far_column =
       Inr (far_column\<lparr>p_date_from := None, p_date_to := None, p_valid := False\<rparr>)"
proof -
  have cm: "compute_comparison_mode comparison_instance"
    by (simp add: compute_comparison_mode_def comparison_instance_def demo_instance_def)
  have pivot: "compute_pivot_date 0 comparison_instance = 738960"
    by (simp add: compute_pivot_date_def comparison_instance_def demo_instance_def
          calendar_defs)
  have company: "i_company_id comparison_instance = 1"
    by (simp add: comparison_instance_def demo_instance_def)
  have fields: "p_mode months_column = MODE_REL" "p_type months_column = Some TYPE_DATE_RANGE"
    "0 < p_duration months_column" "p_date_range_type_id months_column = Some 1"
    "p_offset months_column = - 1" "p_duration months_column = 2"
    by (simp_all add: months_column_def new_period_def)
  have far_fields: "p_mode far_column = MODE_REL" "p_type far_column = Some TYPE_DATE_RANGE"
    "0 < p_duration far_column" "p_date_range_type_id far_column = Some 1"
    "p_offset far_column = - 5" "p_duration far_column = 2"
    by (simp_all add: far_column_def months_column_def new_period_def)
  have cur: "search_current_periods months_2024 (Some (Suc 0)) 738960 (Suc 0)
               = [month_range 13 738946 738976]"
    by (simp add: search_current_periods_def months_2024_def month_range_def)
  have allp: "search_all_periods months_2024 (Some (Suc 0)) (Suc 0) = months_2024"
    by (simp add: search_all_periods_def months_2024_def month_range_def)
  have idx: "list_index (map dr_id months_2024) (dr_id (month_range 13 738946 738976))
               = Inr 2"
    by (simp add: months_2024_def month_range_def)
  have len: "length months_2024 = 4"
    by (simp add: months_2024_def)
  have first: "dr_date_start (months_2024 ! Suc 0) = 738917"
    and final: "dr_date_end (months_2024 ! 2) = 738976"
    by (simp_all add: months_2024_def month_range_def)
  have near: "compute_dates 0 months_2024 comparison_instance months_column =
     Inr (months_column\<lparr>p_date_from := Some 738917, p_date_to := Some 738976,
                         p_valid := True\<rparr>)"
    using date_range_window_resolution
            [OF cm fields(1) fields(2) fields(3), of 0 months_2024]
    by (simp add: Let_def pivot company fields cur allp idx len first final)
  have far: "compute_dates 0 months_2024 comparison_instance far_column =
       Inr (far_column\<lparr>p_date_from := None, p_date_to := None, p_valid := False\<rparr>)"
    using date_range_window_resolution
            [OF cm far_fields(1) far_fields(2) far_fields(3), of 0 months_2024]
    by (simp add: Let_def pivot company far_fields cur allp idx len)
  show ?thesis
    using near far by (rule conjI)
qed

text \<open>
  The claim as it is written fails in two ways. With a duration of 0, which the
  database refuses and a record that is not yet stored may have, the window is empty
  and reading its first range is an IndexError. And in an instance that is not in
  comparison mode, here with the fixed range of January 2024 and no date range at
  all, the period takes the dates of the instance and is valid.
\<close>

theorem date_range_window_counterexample:
  "compute_comparison_mode zero_months_instance
   \<and> p_mode zero_months_column = MODE_REL
   \<and> p_type zero_months_column = Some TYPE_DATE_RANGE
   \<and> compute_dates 0 months_2024 zero_months_instance zero_months_column = Inl IndexError
   \<and> p_mode months_column = MODE_REL
   \<and> p_type months_column = Some TYPE_DATE_RANGE
   \<and> search_current_periods [] (p_date_range_type_id months_column)
        (compute_pivot_date 0 fixed_months_instance) (i_company_id fixed_months_instance) = []
   \<and> compute_dates 0 [] fixed_months_instance months_column =
       Inr (months_column\<lparr>p_date_from := Some (ymd 2024 1 1),
                           p_date_to := Some (ymd 2024 1 31), p_valid := True\<rparr>)"
proof -
  have cm: "compute_comparison_mode zero_months_instance"
    by (simp add: compute_comparison_mode_def zero_months_instance_def demo_instance_def)
  have zf: "p_mode zero_months_column = MODE_REL"
    "p_type zero_months_column = Some TYPE_DATE_RANGE"
    by (simp_all add: zero_months_column_def months_column_def new_period_def)
  have mf: "p_mode months_column = MODE_REL" "p_type months_column = Some TYPE_DATE_RANGE"
    by (simp_all add: months_column_def new_period_def)
  have zero: "compute_dates 0 months_2024 zero_months_instance zero_months_column
                = Inl IndexError"
    by (simp add: compute_dates_def compute_dates_date_range_def compute_comparison_mode_def
          compute_pivot_date_def zero_months_instance_def demo_instance_def
          zero_months_column_def months_column_def new_period_def calendar_defs
          search_current_periods_def search_all_periods_def months_2024_def month_range_def
          py_slice_def slice_bound_def py_getitem_def Let_def)
  have none: "search_current_periods [] (p_date_range_type_id months_column)
        (compute_pivot_date 0 fixed_months_instance) (i_company_id fixed_months_instance) = []"
    by (simp add: search_current_periods_def)
  have fixed: "compute_dates 0 [] fixed_months_instance months_column =
       Inr (months_column\<lparr>p_date_from := Some (ymd 2024 1 1),
                           p_date_to := Some (ymd 2024 1 31), p_valid := True\<rparr>)"
    by (simp add: compute_dates_def compute_comparison_mode_def fixed_months_instance_def
          demo_instance_def)
  show ?thesis
    using cm zf zero mf none fixed by simp
qed

subsection \<open>Columns that compare columns\<close>

text \<open>
  What \<^verbatim>\<open>_check_source_cmpcol\<close> refuses and lets pass: a missing column, a column
  of another instance, and two other columns of the same instance.
\<close>

lemma cmpcol_missing_reference_rejected:
  assumes "p_source self = SRC_CMPCOL"
    and "p_source_cmpcol_from_id self = None \<or> p_source_cmpcol_to_id self = None"
  shows "check_source_cmpcol browse self =
           Inl (ValidationError (''Please provide both columns to compare in ''
                  @ p_name self @ ''.''))"
  using assms by (auto simp add: check_source_cmpcol_def split: option.splits)

lemma cmpcol_other_instance_rejected:
  assumes "p_source self = SRC_CMPCOL"
    and "p_source_cmpcol_from_id self = Some from_id"
    and "p_source_cmpcol_to_id self = Some to_id"
    and "browse from_id = Some from_col" and "browse to_id = Some to_col"
    and "p_report_instance_id from_col \<noteq> p_report_instance_id self
         \<or> p_report_instance_id to_col \<noteq> p_report_instance_id self"
  shows "check_source_cmpcol browse self =
           Inl (ValidationError (''Columns to compare must belong to the same report in ''
                  @ p_name self))"
  using assms
  by (auto simp add: check_source_cmpcol_def read_report_instance_id_def many2one_def)

lemma cmpcol_well_formed_passes:
  assumes "p_source self = SRC_CMPCOL"
    and "p_source_cmpcol_from_id self = Some from_id"
    and "p_source_cmpcol_to_id self = Some to_id"
    and "browse from_id = Some from_col" and "browse to_id = Some to_col"
    and "p_report_instance_id from_col = p_report_instance_id self"
    and "p_report_instance_id to_col = p_report_instance_id self"
  shows "check_source_cmpcol browse self = Inr ()"
  using assms
  by (simp add: check_source_cmpcol_def read_report_instance_id_def many2one_def)

text \<open>
  C2, where the source departs from the claim. A column that compares columns and
  names itself as the column to compare from, the other column being one of its own
  instance, passes \<^verbatim>\<open>_check_source_cmpcol\<close>: the test for a comparison with itself
  compares a recordset with an integer, which is never equal.
\<close>

theorem cmpcol_self_reference_passes:
  assumes "p_source self = SRC_CMPCOL"
    and "p_source_cmpcol_from_id self = Some (p_id self)"
    and "p_source_cmpcol_to_id self = Some to_id"
    and "browse (p_id self) = Some self" and "browse to_id = Some to_col"
    and "p_report_instance_id to_col = p_report_instance_id self"
  shows "check_source_cmpcol browse self = Inr ()"
  using assms
  by (simp add: check_source_cmpcol_def read_report_instance_id_def many2one_def)

theorem cmpcol_self_reference_passes_witness:
  "p_source_cmpcol_from_id delta_column = Some (p_id delta_column)
   \<and> check_source_cmpcol (browse_rows delta_table) delta_column = Inr ()
   \<and> check_mode_source delta_column = Inr ()"
proof -
  have mode_ok: "check_mode_source delta_column = Inr ()"
    by (simp add: check_mode_source_def delta_column_def new_period_def)
  have src: "p_source delta_column = SRC_CMPCOL"
    and from_self: "p_source_cmpcol_from_id delta_column = Some (p_id delta_column)"
    and to_sales: "p_source_cmpcol_to_id delta_column = Some 6"
    by (simp_all add: delta_column_def new_period_def)
  have b1: "browse_rows delta_table (p_id delta_column) = Some delta_column"
    by (simp add: browse_rows_def delta_table_def delta_column_def sales_column_def
          new_period_def)
  have b2: "browse_rows delta_table 6 = Some sales_column"
    by (simp add: browse_rows_def delta_table_def sales_column_def new_period_def)
  have same: "p_report_instance_id sales_column = p_report_instance_id delta_column"
    by (simp add: delta_column_def sales_column_def new_period_def)
  show ?thesis
    using from_self cmpcol_self_reference_passes [OF src from_self to_sales b1 b2 same]
      mode_ok
    by simp
qed

text \<open>
  The sibling constraint \<^verbatim>\<open>_check_period_to_sum\<close> compares two recordsets and does
  refuse a column that sums itself.
\<close>

lemma period_to_sum_self_rejected:
  "check_period_to_sum parent (p_id parent) =
     Inl (ValidationError (''You cannot sum period '' @ p_name parent @ '' with itself.''))"
  by (simp add: check_period_to_sum_def many2one_def)

subsection \<open>Parameter values\<close>

text \<open>
  C3, where the source departs from the claim. For every parameter value whose type
  is none of \<^verbatim>\<open>'str'\<close>, \<^verbatim>\<open>'num'\<close> and \<^verbatim>\<open>'ref'\<close>, \<^verbatim>\<open>_value\<close> ends in a
  NameError for \<^verbatim>\<open>pv\<close>, not in the UserError for an unsupported type.
\<close>

theorem unsupported_type_is_name_error:
  assumes "pv_type self \<noteq> Some ''str''" and "pv_type self \<noteq> Some ''num''"
    and "pv_type self \<noteq> Some ''ref''"
  shows "pv_value search self = Inl (NameError ''pv'')"
  using assms by (simp add: pv_value_def)

theorem unsupported_type_is_name_error_witness:
  "pv_type untyped_param = None
   \<and> pv_value no_records untyped_param = Inl (NameError ''pv'')"
proof -
  have t: "pv_type untyped_param = None"
    by (simp add: untyped_param_def)
  have "pv_type untyped_param \<noteq> Some ''str''" "pv_type untyped_param \<noteq> Some ''num''"
    "pv_type untyped_param \<noteq> Some ''ref''"
    by (simp_all add: t)
  from t unsupported_type_is_name_error [OF this] show ?thesis
    by (rule conjI)
qed

subsection \<open>Switching the comparison mode\<close>

text \<open>What \<^verbatim>\<open>_inverse_comparison_mode\<close> does when it does not fail.\<close>

lemma entering_comparison_mode:
  "inverse_comparison_mode new_id True record =
     Inr (record\<lparr>i_date_from := None, i_date_to := None\<rparr>)"
  by (simp add: inverse_comparison_mode_def)

lemma leaving_comparison_mode_with_dates:
  assumes "i_date_from record = Some a" and "i_date_to record = Some b"
  shows "\<exists>r. inverse_comparison_mode new_id False record = Inr r
           \<and> map p_name (i_period_ids r) = [''Default'']
           \<and> i_date_from r = Some a \<and> i_date_to r = Some b
           \<and> \<not> compute_comparison_mode r"
  using assms
  by (simp add: inverse_comparison_mode_def compute_comparison_mode_def new_period_def)

text \<open>
  C4, where the source departs from the claim. Switching an instance out of
  comparison mode while its \<open>date_from\<close> or its \<open>date_to\<close> is not set ends in an
  AttributeError: nothing is cleared.
\<close>

theorem leaving_comparison_mode_without_dates:
  assumes "i_date_from record = None \<or> i_date_to record = None"
  shows "inverse_comparison_mode new_id False record = Inl (AttributeError ''now'')"
  using assms by (auto simp add: inverse_comparison_mode_def)

theorem leaving_comparison_mode_without_dates_witness:
  "compute_comparison_mode comparison_instance
   \<and> inverse_comparison_mode 9 False comparison_instance = Inl (AttributeError ''now'')"
proof -
  have cm: "compute_comparison_mode comparison_instance"
    by (simp add: compute_comparison_mode_def comparison_instance_def demo_instance_def)
  have "i_date_from comparison_instance = None \<or> i_date_to comparison_instance = None"
    by (simp add: comparison_instance_def demo_instance_def)
  from cm leaving_comparison_mode_without_dates [OF this] show ?thesis
    by (rule conjI)
qed

subsection \<open>Names of the columns of an instance\<close>

lemma name_unique_per_instance:
  "distinct (map (\<lambda>p. (p_name p, p_report_instance_id p)) rows) \<Longrightarrow>
   distinct (map p_name (filter (\<lambda>p. p_report_instance_id p = inst) rows))"
  by (induction rows) (auto simp add: image_iff)

lemma same_key_not_unique:
  assumes "i < j" and "j < length rows"
    and "p_name (rows ! i) = p_name (rows ! j)"
    and "p_report_instance_id (rows ! i) = p_report_instance_id (rows ! j)"
  shows "\<not> sql_name_unique rows"
proof
  assume "sql_name_unique rows"
  then have d: "distinct (map (\<lambda>p. (p_name p, p_report_instance_id p)) rows)"
    by (simp add: sql_name_unique_def)
  have li: "i < length (map (\<lambda>p. (p_name p, p_report_instance_id p)) rows)"
    and lj: "j < length (map (\<lambda>p. (p_name p, p_report_instance_id p)) rows)"
    using assms(1,2) by simp_all
  have "map (\<lambda>p. (p_name p, p_report_instance_id p)) rows ! i
        = map (\<lambda>p. (p_name p, p_report_instance_id p)) rows ! j"
    using assms by simp
  then have "i = j"
    using nth_eq_iff_index_eq [OF d li lj] by simp
  with assms(1) show False by simp
qed

text \<open>
  C10. The constraint \<^verbatim>\<open>name_unique\<close> of the period is
  \<^verbatim>\<open>unique(name, report_instance_id)\<close>: the database refuses every table of periods
  in which two rows have the same name and the same instance; in a table it accepts
  the names of the periods of each instance are distinct; and
  \<^verbatim>\<open>_inverse_comparison_mode\<close>, the operation of this file that writes periods,
  takes an instance whose periods the constraints accept to one whose periods they
  accept.
\<close>

theorem period_name_unique:
  "(i < j \<and> j < length rows \<and> p_name (rows ! i) = p_name (rows ! j)
      \<and> p_report_instance_id (rows ! i) = p_report_instance_id (rows ! j)
      \<longrightarrow> (\<exists>msg. check_sql_constraints rows = Inl (ValidationError msg)))
   \<and> (check_sql_constraints rows = Inr ()
      \<longrightarrow> (\<forall>inst. distinct (map p_name
                    (filter (\<lambda>p. p_report_instance_id p = inst) rows))))
   \<and> (check_sql_constraints (i_period_ids record) = Inr ()
      \<and> inverse_comparison_mode new_id comparison_mode record = Inr record'
      \<longrightarrow> check_sql_constraints (i_period_ids record') = Inr ())"
proof (intro conjI impI)
  assume "i < j \<and> j < length rows \<and> p_name (rows ! i) = p_name (rows ! j)
      \<and> p_report_instance_id (rows ! i) = p_report_instance_id (rows ! j)"
  then have "\<not> sql_name_unique rows"
    using same_key_not_unique by blast
  then show "\<exists>msg. check_sql_constraints rows = Inl (ValidationError msg)"
    by (simp add: check_sql_constraints_def)
next
  assume "check_sql_constraints rows = Inr ()"
  then have "sql_name_unique rows"
    by (simp add: check_sql_constraints_def split: if_splits)
  then show "\<forall>inst. distinct (map p_name (filter (\<lambda>p. p_report_instance_id p = inst) rows))"
    by (auto simp add: sql_name_unique_def intro: name_unique_per_instance)
next
  assume a: "check_sql_constraints (i_period_ids record) = Inr ()
      \<and> inverse_comparison_mode new_id comparison_mode record = Inr record'"
  show "check_sql_constraints (i_period_ids record') = Inr ()"
  proof (cases comparison_mode)
    case True
    with a have "i_period_ids record' = i_period_ids record"
      by (auto simp add: inverse_comparison_mode_def)
    with a show ?thesis by simp
  next
    case False
    with a have "i_period_ids record' =
        [(new_period new_id (i_id record) ''Default'')\<lparr>p_type := Some TYPE_D\<rparr>]"
      by (auto simp add: inverse_comparison_mode_def split: if_splits)
    then show ?thesis
      by (simp add: check_sql_constraints_def sql_duration_def sql_normalize_factor_def
            sql_name_unique_def new_period_def)
  qed
qed

theorem period_name_unique_witness:
  "check_sql_constraints twin_rows =
     Inl (ValidationError ''Period name should be unique by report'')
   \<and> check_sql_constraints (i_period_ids fixed_instance) = Inr ()
   \<and> distinct (map p_name (filter (\<lambda>p. p_report_instance_id p = 1)
                 (i_period_ids fixed_instance)))
   \<and> check_sql_constraints
       (i_period_ids (fixed_instance\<lparr>i_period_ids :=
          [(new_period 9 1 ''Default'')\<lparr>p_type := Some TYPE_D\<rparr>]\<rparr>)) = Inr ()"
proof -
  have twins: "check_sql_constraints twin_rows =
     Inl (ValidationError ''Period name should be unique by report'')"
    using period_name_unique [of 0 1 twin_rows]
    by (simp add: check_sql_constraints_def sql_duration_def sql_normalize_factor_def
          sql_name_unique_def twin_rows_def new_period_def)
  have ok: "check_sql_constraints (i_period_ids fixed_instance) = Inr ()"
    by (simp add: check_sql_constraints_def sql_duration_def sql_normalize_factor_def
          sql_name_unique_def fixed_instance_def demo_instance_def total_column_def
          new_period_def)
  have inv: "inverse_comparison_mode 9 False fixed_instance =
      Inr (fixed_instance\<lparr>i_period_ids :=
             [(new_period 9 1 ''Default'')\<lparr>p_type := Some TYPE_D\<rparr>]\<rparr>)"
    by (simp add: inverse_comparison_mode_def fixed_instance_def demo_instance_def)
  note at_fixed = period_name_unique [of 0 1 "i_period_ids fixed_instance" fixed_instance 9 False
      "fixed_instance\<lparr>i_period_ids :=
         [(new_period 9 1 ''Default'')\<lparr>p_type := Some TYPE_D\<rparr>]\<rparr>"]
  have names: "distinct (map p_name (filter (\<lambda>p. p_report_instance_id p = 1)
                 (i_period_ids fixed_instance)))"
    using at_fixed ok by blast
  have kept: "check_sql_constraints
       (i_period_ids (fixed_instance\<lparr>i_period_ids :=
          [(new_period 9 1 ''Default'')\<lparr>p_type := Some TYPE_D\<rparr>]\<rparr>)) = Inr ()"
    using at_fixed ok inv by blast
  show ?thesis
    using twins ok names kept by blast
qed

subsection \<open>What resolving the dates leaves alone\<close>

lemma date_range_keeps_fields:
  assumes "compute_dates_date_range table report d record = Inr r"
  shows "r = record\<lparr>p_date_from := p_date_from r, p_date_to := p_date_to r,
                    p_valid := p_valid r\<rparr>"
  using assms unfolding compute_dates_date_range_def Let_def
  by (auto split: list.splits sum.splits if_splits)

lemma day_keeps_fields:
  assumes "compute_dates_day d record = Inr r"
  shows "r = record\<lparr>p_date_from := p_date_from r, p_date_to := p_date_to r,
                    p_valid := p_valid r\<rparr>"
  using assms unfolding compute_dates_day_def
  by (auto split: sum.splits)

lemma week_keeps_fields:
  assumes "compute_dates_week d record = Inr r"
  shows "r = record\<lparr>p_date_from := p_date_from r, p_date_to := p_date_to r,
                    p_valid := p_valid r\<rparr>"
  using assms unfolding compute_dates_week_def
  by (auto split: sum.splits)

lemma compute_dates_keeps_fields:
  assumes "compute_dates today table report record = Inr r"
  shows "r = record\<lparr>p_date_from := p_date_from r, p_date_to := p_date_to r,
                    p_valid := p_valid r\<rparr>"
proof (cases "\<not> compute_comparison_mode report \<or> p_mode record = MODE_NONE
              \<or> p_mode record = MODE_FIX")
  case True
  then show ?thesis
    using assms unfolding compute_dates_def Let_def
    by (auto split: if_splits)
next
  case False
  define r0 where "r0 = record\<lparr>p_date_from := None, p_date_to := None, p_valid := False\<rparr>"
  define d where "d = compute_pivot_date today report"
  have eq: "compute_dates today table report record =
      (if p_type record = Some TYPE_D then compute_dates_day d r0
       else if p_type record = Some TYPE_W then compute_dates_week d r0
       else if p_type record = Some TYPE_DATE_RANGE then
         compute_dates_date_range table report d r0
       else Inr r0)"
    using False unfolding compute_dates_def Let_def by (simp add: r0_def d_def)
  have "r = r0\<lparr>p_date_from := p_date_from r, p_date_to := p_date_to r,
                p_valid := p_valid r\<rparr>"
  proof (cases "p_type record = Some TYPE_D")
    case True
    with assms eq show ?thesis by (simp add: day_keeps_fields)
  next
    case nd: False
    show ?thesis
    proof (cases "p_type record = Some TYPE_W")
      case True
      with assms eq nd show ?thesis by (simp add: week_keeps_fields)
    next
      case nw: False
      show ?thesis
      proof (cases "p_type record = Some TYPE_DATE_RANGE")
        case True
        with assms eq nd nw show ?thesis by (simp add: date_range_keeps_fields)
      next
        case False
        with assms eq nd nw have "r = r0" by simp
        then show ?thesis by simp
      qed
    qed
  qed
  then show ?thesis by (simp add: r0_def)
qed

lemma compute_dates_name:
  assumes "compute_dates today table report record = Inr r"
  shows "p_name r = p_name record" and "p_source r = p_source record"
    and "p_source_aml_model_id r = p_source_aml_model_id record"
proof -
  have e: "r = record\<lparr>p_date_from := p_date_from r, p_date_to := p_date_to r,
                      p_valid := p_valid r\<rparr>"
    using assms by (rule compute_dates_keeps_fields)
  show "p_name r = p_name record" by (subst e) simp
  show "p_source r = p_source record" by (subst e) simp
  show "p_source_aml_model_id r = p_source_aml_model_id record" by (subst e) simp
qed

subsection \<open>Actuals columns without dates\<close>

lemma add_column_missing_dates:
  assumes "p_source period = SRC_ACTUALS \<or> p_source period = SRC_ACTUALS_ALT"
    and "p_date_from period = None \<or> p_date_to period = None"
  shows "add_column ops self aep kpi_matrix period label description =
           Inl (UserError (missing_dates_message period))"
  using assms
  by (auto simp add: add_column_def add_column_actuals_def add_column_actuals_alt_def
        split: option.splits)

lemma column_missing_dates:
  assumes src: "p_source period = SRC_ACTUALS \<or> p_source period = SRC_ACTUALS_ALT"
    and res: "compute_dates today table self period = Inr resolved"
    and miss: "p_date_from resolved = None \<or> p_date_to resolved = None"
  shows "compute_matrix_column ops today table self aep kpi_matrix period =
           Inl (UserError (missing_dates_message period))"
proof -
  have src': "p_source resolved = SRC_ACTUALS \<or> p_source resolved = SRC_ACTUALS_ALT"
    using src compute_dates_name(2) [OF res] by simp
  have msg: "missing_dates_message resolved = missing_dates_message period"
    using compute_dates_name(1) [OF res] by (simp add: missing_dates_message_def)
  show ?thesis
    using res add_column_missing_dates [OF src' miss] msg
    by (simp add: compute_matrix_column_def)
qed

lemma loop_append:
  "compute_matrix_loop ops today table self aep (xs @ ys) m =
     (case compute_matrix_loop ops today table self aep xs m of
        Inl e \<Rightarrow> Inl e
      | Inr m' \<Rightarrow> compute_matrix_loop ops today table self aep ys m')"
  by (induction xs arbitrary: m) (auto split: sum.splits)

lemma loop_stops_at_missing_dates:
  assumes "period \<in> set periods"
    and "p_source period = SRC_ACTUALS \<or> p_source period = SRC_ACTUALS_ALT"
    and "compute_dates today table self period = Inr resolved"
    and "p_date_from resolved = None \<or> p_date_to resolved = None"
  shows "\<exists>e. compute_matrix_loop ops today table self aep periods m = Inl e"
  using assms(1)
proof (induction periods arbitrary: m)
  case Nil
  then show ?case by simp
next
  case (Cons q qs)
  show ?case
  proof (cases "compute_matrix_column ops today table self aep m q")
    case (Inl e)
    then show ?thesis by simp
  next
    case (Inr m')
    have "q \<noteq> period"
      using Inr column_missing_dates [OF assms(2,3,4), of ops aep m] by auto
    with Cons.prems have "period \<in> set qs" by simp
    from Cons.IH [OF this] Inr show ?thesis by simp
  qed
qed

text \<open>
  C8 (as amended). For every instance with an actuals column (or an alternative
  actuals column) whose resolved \<open>date_from\<close> or \<open>date_to\<close> is missing,
  \<^verbatim>\<open>compute\<close> ends in an error and returns no matrix. When the parameter values
  resolve, the expression processor and the matrix are prepared and every column
  before that one is added without error, the error is the UserError whose message
  names the column.
\<close>

theorem compute_missing_dates:
  assumes mem: "period \<in> set (i_period_ids self)"
    and src: "p_source period = SRC_ACTUALS \<or> p_source period = SRC_ACTUALS_ALT"
    and res: "compute_dates today table self period = Inr resolved"
    and miss: "p_date_from resolved = None \<or> p_date_to resolved = None"
  shows "(\<exists>e. compute with_context search today table self = Inl e)
       \<and> (\<forall>vals aep m0 before rest m1.
            param_vals search self = Inr vals
            \<and> prepare_aep (with_context vals) (i_company_id self) = Inr aep
            \<and> prepare_kpi_matrix (with_context vals) = Inr m0
            \<and> i_period_ids self = before @ period # rest
            \<and> compute_matrix_loop (with_context vals) today table self aep before m0 = Inr m1
            \<longrightarrow> compute with_context search today table self =
                  Inl (UserError (missing_dates_message period)))"
proof (rule conjI)
  show "\<exists>e. compute with_context search today table self = Inl e"
  proof (cases "param_vals search self")
    case (Inl e)
    then show ?thesis by (simp add: compute_def)
  next
    case (Inr vals)
    have "\<exists>e. compute_matrix (with_context vals) today table self = Inl e"
    proof (cases "prepare_aep (with_context vals) (i_company_id self)")
      case (Inl e)
      then show ?thesis by (simp add: compute_matrix_def)
    next
      case aep: (Inr aep)
      show ?thesis
      proof (cases "prepare_kpi_matrix (with_context vals)")
        case (Inl e)
        with aep show ?thesis by (simp add: compute_matrix_def)
      next
        case m0: (Inr m0)
        obtain e where "compute_matrix_loop (with_context vals) today table self aep
                          (i_period_ids self) m0 = Inl e"
          using loop_stops_at_missing_dates
                  [OF mem src res miss, of "with_context vals" aep m0]
          by blast
        with aep m0 show ?thesis by (simp add: compute_matrix_def)
      qed
    qed
    with Inr show ?thesis by (auto simp add: compute_def)
  qed
next
  show "\<forall>vals aep m0 before rest m1.
            param_vals search self = Inr vals
            \<and> prepare_aep (with_context vals) (i_company_id self) = Inr aep
            \<and> prepare_kpi_matrix (with_context vals) = Inr m0
            \<and> i_period_ids self = before @ period # rest
            \<and> compute_matrix_loop (with_context vals) today table self aep before m0 = Inr m1
            \<longrightarrow> compute with_context search today table self =
                  Inl (UserError (missing_dates_message period))"
  proof (intro allI impI)
    fix vals aep m0 before rest m1
    assume a: "param_vals search self = Inr vals
            \<and> prepare_aep (with_context vals) (i_company_id self) = Inr aep
            \<and> prepare_kpi_matrix (with_context vals) = Inr m0
            \<and> i_period_ids self = before @ period # rest
            \<and> compute_matrix_loop (with_context vals) today table self aep before m0 = Inr m1"
    have col: "compute_matrix_column (with_context vals) today table self aep m1 period =
                 Inl (UserError (missing_dates_message period))"
      by (rule column_missing_dates [OF src res miss])
    have "compute_matrix_loop (with_context vals) today table self aep
            (i_period_ids self) m0 = Inl (UserError (missing_dates_message period))"
      using a col by (simp add: loop_append)
    then show "compute with_context search today table self =
                 Inl (UserError (missing_dates_message period))"
      using a by (simp add: compute_def compute_matrix_def)
  qed
qed

text \<open>
  An instance in comparison mode with the actuals columns \<open>Sales\<close> and \<open>Costs\<close>,
  neither with dates: the error names \<open>Sales\<close>, the first of them.
\<close>

lemma undated_columns:
  "compute_dates 0 [] undated_instance sales_column =
     Inr (sales_column\<lparr>p_date_from := None, p_date_to := None, p_valid := False\<rparr>)"
  "compute_dates 0 [] undated_instance costs_column =
     Inr (costs_column\<lparr>p_date_from := None, p_date_to := None, p_valid := False\<rparr>)"
  by (simp_all add: compute_dates_def compute_comparison_mode_def undated_instance_def
        demo_instance_def sales_column_def costs_column_def new_period_def)

lemma undated_compute:
  "compute demo_context no_records 0 [] undated_instance =
     Inl (UserError ''Column Sales with actuals source must have from/to dates.'')"
proof -
  have src: "p_source sales_column = SRC_ACTUALS \<or> p_source sales_column = SRC_ACTUALS_ALT"
    by (simp add: sales_column_def new_period_def)
  have miss: "p_date_from (sales_column\<lparr>p_date_from := None, p_date_to := None,
                 p_valid := False\<rparr>) = None
              \<or> p_date_to (sales_column\<lparr>p_date_from := None, p_date_to := None,
                 p_valid := False\<rparr>) = None"
    by simp
  have col: "compute_matrix_column (demo_context Map.empty) 0 [] undated_instance () []
               sales_column = Inl (UserError (missing_dates_message sales_column))"
    by (rule column_missing_dates [OF src undated_columns(1) miss])
  have msg: "missing_dates_message sales_column =
               ''Column Sales with actuals source must have from/to dates.''"
    by (simp add: missing_dates_message_def sales_column_def new_period_def)
  have pv: "param_vals no_records undated_instance = Inr Map.empty"
    by (simp add: param_vals_def undated_instance_def demo_instance_def)
  have aep: "prepare_aep (demo_context Map.empty) (i_company_id undated_instance) = Inr ()"
    by (simp add: demo_context_def demo_ops_def)
  have m0: "prepare_kpi_matrix (demo_context Map.empty) = Inr []"
    by (simp add: demo_context_def demo_ops_def)
  have cols: "i_period_ids undated_instance = [sales_column, costs_column]"
    by (simp add: undated_instance_def)
  show ?thesis
    by (simp add: compute_def compute_matrix_def pv aep m0 cols col msg)
qed

theorem compute_missing_dates_witness:
  "compute demo_context no_records 0 [] undated_instance =
     Inl (UserError ''Column Sales with actuals source must have from/to dates.'')"
proof -
  have mem: "sales_column \<in> set (i_period_ids undated_instance)"
    by (simp add: undated_instance_def)
  have src: "p_source sales_column = SRC_ACTUALS \<or> p_source sales_column = SRC_ACTUALS_ALT"
    by (simp add: sales_column_def new_period_def)
  have miss: "p_date_from (sales_column\<lparr>p_date_from := None, p_date_to := None,
                 p_valid := False\<rparr>) = None
              \<or> p_date_to (sales_column\<lparr>p_date_from := None, p_date_to := None,
                 p_valid := False\<rparr>) = None"
    by simp
  have pv: "param_vals no_records undated_instance = Inr Map.empty"
    by (simp add: param_vals_def undated_instance_def demo_instance_def)
  have aep: "prepare_aep (demo_context Map.empty) (i_company_id undated_instance) = Inr ()"
    by (simp add: demo_context_def demo_ops_def)
  have m0: "prepare_kpi_matrix (demo_context Map.empty) = Inr []"
    by (simp add: demo_context_def demo_ops_def)
  have split: "i_period_ids undated_instance = [] @ sales_column # [costs_column]"
    by (simp add: undated_instance_def)
  have pre: "compute_matrix_loop (demo_context Map.empty) 0 [] undated_instance () [] []
               = Inr []"
    by simp
  have msg: "missing_dates_message sales_column =
               ''Column Sales with actuals source must have from/to dates.''"
    by (simp add: missing_dates_message_def sales_column_def new_period_def)
  have "compute demo_context no_records 0 [] undated_instance =
          Inl (UserError (missing_dates_message sales_column))"
    using compute_missing_dates [OF mem src undated_columns(1) miss,
            of demo_context no_records] pv aep m0 split pre
    by blast
  then show ?thesis
    by (simp add: msg)
qed

text \<open>
  The claim as it is written fails in two ways. The column \<open>Costs\<close> of that instance
  has no dates either, and the error does not name it; and in an instance whose
  reference parameter matches no record, the error is that of the parameter and
  names no column.
\<close>

theorem compute_missing_dates_counterexample:
  "costs_column \<in> set (i_period_ids undated_instance)
   \<and> p_source costs_column = SRC_ACTUALS
   \<and> compute_dates 0 [] undated_instance costs_column =
       Inr (costs_column\<lparr>p_date_from := None, p_date_to := None, p_valid := False\<rparr>)
   \<and> compute demo_context no_records 0 [] undated_instance =
       Inl (UserError ''Column Sales with actuals source must have from/to dates.'')
   \<and> missing_dates_message costs_column =
       ''Column Costs with actuals source must have from/to dates.''
   \<and> sales_column \<in> set (i_period_ids unresolved_param_instance)
   \<and> compute_dates 0 [] unresolved_param_instance sales_column =
       Inr (sales_column\<lparr>p_date_from := None, p_date_to := None, p_valid := False\<rparr>)
   \<and> compute demo_context no_records 0 [] unresolved_param_instance =
       Inl (UserError (''Parameter '' @ apostrophe @ ''partner'' @ apostrophe
              @ '' error. Can'' @ apostrophe @ ''t find any Partner records with ''
              @ ''Internal Reference equal to '' @ apostrophe @ ''ACME'' @ apostrophe
              @ ''.''))"
proof -
  have a: "costs_column \<in> set (i_period_ids undated_instance)"
    by (simp add: undated_instance_def)
  have b: "p_source costs_column = SRC_ACTUALS"
    by (simp add: costs_column_def new_period_def)
  have d: "compute demo_context no_records 0 [] undated_instance =
       Inl (UserError ''Column Sales with actuals source must have from/to dates.'')"
    by (rule undated_compute)
  have e: "missing_dates_message costs_column =
       ''Column Costs with actuals source must have from/to dates.''"
    by (simp add: missing_dates_message_def costs_column_def new_period_def)
  have f: "sales_column \<in> set (i_period_ids unresolved_param_instance)"
    by (simp add: unresolved_param_instance_def)
  have g: "compute_dates 0 [] unresolved_param_instance sales_column =
       Inr (sales_column\<lparr>p_date_from := None, p_date_to := None, p_valid := False\<rparr>)"
    by (simp add: compute_dates_def compute_comparison_mode_def
          unresolved_param_instance_def demo_instance_def sales_column_def new_period_def)
  have h: "compute demo_context no_records 0 [] unresolved_param_instance =
       Inl (UserError (''Parameter '' @ apostrophe @ ''partner'' @ apostrophe
              @ '' error. Can'' @ apostrophe @ ''t find any Partner records with ''
              @ ''Internal Reference equal to '' @ apostrophe @ ''ACME'' @ apostrophe
              @ ''.''))"
    by (simp add: compute_def param_vals_def pv_value_def no_records_def char_text_def
          unresolved_param_instance_def demo_instance_def partner_param_def)
  show ?thesis
    using a b undated_columns(2) d e f g h by blast
qed

subsection \<open>Drill-down\<close>




end
